theory Spec2Isabelle
  imports Complex_Main "HOL-Library.Option_ord"
begin

section \<open>The document store\<close>

text \<open>
  The statistics plane keeps its state in collections of a document store. A collection
  is modelled as the list of its documents in storage order. The driver calls the
  repository uses are \<open>FindOne\<close>, \<open>UpdateOne\<close> (with or without upsert),
  \<open>InsertOne\<close> and \<open>DeleteOne\<close>; each acts on the first document that
  matches its filter. The store is taken to be reachable: the branches of the source
  that only report a transport failure of the driver have no counterpart here, every
  other error return of the source is a branch of the model.

  Timestamps are clock ticks; \<open>0\<close> is Go's zero \<open>time.Time\<close>. A call reads the
  clock once: the \<open>now\<close> argument stands for every \<open>time.Now()\<close> of one call.
  Go's \<open>float64\<close> is modelled by \<open>real\<close> and Go's \<open>int\<close> by \<open>int\<close>.
\<close>

type_synonym time = nat

datatype mongo_error = DuplicateKey | DollarPrefixedField

definition find_one :: "('d \<Rightarrow> bool) \<Rightarrow> 'd list \<Rightarrow> 'd option" where
  "find_one flt c = find flt c"

text \<open>
  A unique index is given by the relation "these two documents have the same index key".
  Inserting a document fails when a stored document has its key; updating a document
  fails when the update changes its key to the key of another stored document.
\<close>

definition collides :: "('d \<Rightarrow> 'd \<Rightarrow> bool) list \<Rightarrow> 'd \<Rightarrow> 'd list \<Rightarrow> bool" where
  "collides uniq d c = list_ex (\<lambda>same. list_ex (same d) c) uniq"

definition rekeyed :: "('d \<Rightarrow> 'd \<Rightarrow> bool) list \<Rightarrow> 'd \<Rightarrow> 'd \<Rightarrow> 'd list \<Rightarrow> bool" where
  "rekeyed uniq d d' others =
     list_ex (\<lambda>same. \<not> same d d' \<and> list_ex (same d') others) uniq"

definition insert_one :: "('d \<Rightarrow> 'd \<Rightarrow> bool) list \<Rightarrow> 'd \<Rightarrow> 'd list \<Rightarrow> mongo_error + 'd list" where
  "insert_one uniq d c = (if collides uniq d c then Inl DuplicateKey else Inr (c @ [d]))"

text \<open>
  \<open>update_one uniq flt upd ins c\<close>: \<open>upd\<close> is the effect of the update operators on
  a matched document; \<open>ins\<close> is \<open>None\<close> for a plain update and, for an upsert,
  the document that is inserted when nothing matches (the equality fields of the filter
  with the operators applied). The second component of the result is \<open>MatchedCount\<close>.
\<close>

definition update_one ::
  "('d \<Rightarrow> 'd \<Rightarrow> bool) list \<Rightarrow> ('d \<Rightarrow> bool) \<Rightarrow> ('d \<Rightarrow> 'd) \<Rightarrow> 'd option \<Rightarrow> 'd list
     \<Rightarrow> mongo_error + ('d list \<times> nat)" where
  "update_one uniq flt upd ins c =
     (case dropWhile (\<lambda>d. \<not> flt d) c of
        d # post \<Rightarrow>
          (let pre = takeWhile (\<lambda>d. \<not> flt d) c in
           if rekeyed uniq d (upd d) (pre @ post) then Inl DuplicateKey
           else Inr (pre @ upd d # post, 1))
      | [] \<Rightarrow>
          (case ins of
             None \<Rightarrow> Inr (c, 0)
           | Some d0 \<Rightarrow>
               if collides uniq d0 c then Inl DuplicateKey else Inr (c @ [d0], 0)))"


section \<open>Input validation (\<open>internal/validation\<close>)\<close>

datatype error =
    ErrInvalidID
  | ErrInvalidSource
  | ErrInvalidLimit
  | ErrDecode
  | ErrWrite mongo_error
  | ErrRequired
  | ErrDuplicateFeedback
  | ErrFeedbackNotFound

definition is_space :: "char \<Rightarrow> bool" where
  "is_space ch = (ch \<in> set [CHR '' '', CHR 0x09, CHR 0x0A, CHR 0x0B, CHR 0x0C, CHR 0x0D])"

definition TrimSpace :: "string \<Rightarrow> string" where
  "TrimSpace s = rev (dropWhile is_space (rev (dropWhile is_space s)))"

text \<open>
  Characters are bytes; a character class is a range of byte values. \<open>TrimSpace\<close>
  removes the ASCII white space. Go also trims the Unicode spaces beyond ASCII
  (multi-byte sequences); inputs wrapped in those are outside the model, which
  rejects them where Go would accept the trimmed text.
\<close>

definition in_range :: "char \<Rightarrow> char \<Rightarrow> char \<Rightarrow> bool" where
  "in_range lo hi ch = ((of_char lo :: nat) \<le> of_char ch \<and> (of_char ch :: nat) \<le> of_char hi)"

definition is_upper :: "char \<Rightarrow> bool" where
  "is_upper ch = in_range (CHR ''A'') (CHR ''Z'') ch"

definition is_lower :: "char \<Rightarrow> bool" where
  "is_lower ch = in_range (CHR ''a'') (CHR ''z'') ch"

definition is_digit :: "char \<Rightarrow> bool" where
  "is_digit ch = in_range (CHR ''0'') (CHR ''9'') ch"

definition is_hex :: "char \<Rightarrow> bool" where
  "is_hex ch = (is_digit ch \<or> in_range (CHR ''a'') (CHR ''f'') ch \<or> in_range (CHR ''A'') (CHR ''F'') ch)"

definition ToLower :: "string \<Rightarrow> string" where
  "ToLower s = map (\<lambda>ch. if is_upper ch then char_of (of_char ch + (32::nat)) else ch) s"

text \<open>\<open>AllowedSourceValues\<close>: the whitelist map; a missing key reads as \<open>false\<close>.\<close>

definition AllowedSourceValues :: "string \<Rightarrow> bool" where
  "AllowedSourceValues s = (s \<in> set [''REGISTRY'', ''COMMUNITY'', ''ALL'', ''''])"

text \<open>\<open>isAlphanumeric\<close>: the empty string, or the pattern \<open>^[A-Z]+$\<close>.\<close>

definition isAlphanumeric :: "string \<Rightarrow> bool" where
  "isAlphanumeric s = (if s = '''' then True else list_all is_upper s)"

definition ValidateSource :: "string \<Rightarrow> error + string" where
  "ValidateSource source0 =
     (let source = TrimSpace source0 in
      if \<not> AllowedSourceValues source then Inl ErrInvalidSource
      else if \<not> isAlphanumeric source \<and> source \<noteq> '''' then Inl ErrInvalidSource
      else Inr source)"

text \<open>
  \<open>uuidPattern\<close>: hexadecimal groups of 8, 4, 4, 4 and 12 characters joined by hyphens.
  \<open>idPattern\<close>: \<open>^[a-zA-Z0-9][a-zA-Z0-9._-]{0,254}$\<close>.
\<close>

definition uuidPattern :: "string \<Rightarrow> bool" where
  "uuidPattern s =
     (length s = 36 \<and>
      list_all (\<lambda>i. if i \<in> set [8, 13, 18, 23] then s ! i = CHR ''-'' else is_hex (s ! i)) [0..<36])"

definition is_id_char :: "char \<Rightarrow> bool" where
  "is_id_char ch = (is_lower ch \<or> is_upper ch \<or> is_digit ch \<or> ch \<in> set [CHR ''.'', CHR ''_'', CHR ''-''])"

definition idPattern :: "string \<Rightarrow> bool" where
  "idPattern s =
     (case s of
        [] \<Rightarrow> False
      | ch # rest \<Rightarrow>
          (is_lower ch \<or> is_upper ch \<or> is_digit ch) \<and> length rest \<le> 254 \<and> list_all is_id_char rest)"

definition SanitizeID :: "string \<Rightarrow> error + string" where
  "SanitizeID id0 =
     (let ident = TrimSpace id0 in
      if ident = '''' then Inl ErrInvalidID
      else if uuidPattern ident then Inr (ToLower ident)
      else if \<not> idPattern ident then Inl ErrInvalidID
      else Inr ident)"

definition SanitizeServerID :: "string \<Rightarrow> error + string" where
  "SanitizeServerID serverID = SanitizeID serverID"


section \<open>The statistics store (\<open>extensions/stats/database.go\<close>)\<close>

subsection \<open>Records and stored documents\<close>

definition SourceRegistry :: string where
  "SourceRegistry = ''REGISTRY''"

definition SourceCommunity :: string where
  "SourceCommunity = ''COMMUNITY''"

text \<open>The Go struct \<open>ServerStats\<close>.\<close>

record ServerStats =
  ServerID :: string
  Source :: string
  InstallationCount :: int
  Rating :: real
  RatingCount :: int
  FirstSeen :: time
  LastUpdated :: time
  ActiveInstalls :: int
  DailyActiveUsers :: int
  MonthlyActiveUsers :: int
  ClaimedFrom :: string
  ClaimedAt :: time

text \<open>
  A document of the collection \<open>server_stats\<close>. Every field but the key may be absent
  (\<open>None\<close>). \<open>server_id\<close> is a string in the documents the store writes for a
  server, and an integer in the documents \<open>SyncAnalyticsData\<close> upserts.
  \<open>claimed_to\<close> is written by \<open>TransferStats\<close> and has no field in the struct;
  \<open>weekly_growth\<close> is read by the \<open>GetTrending\<close> pipeline.
\<close>

datatype bson_id = IdString string | IdInt int

record stats_doc =
  server_id :: bson_id
  source :: "string option"
  installation_count :: "int option"
  rating :: "real option"
  rating_count :: "int option"
  first_seen :: "time option"
  last_updated :: "time option"
  active_installs :: "int option"
  daily_active_users :: "int option"
  monthly_active_users :: "int option"
  claimed_from :: "string option"
  claimed_at :: "time option"
  claimed_to :: "string option"
  weekly_growth :: "real option"

text \<open>A document holding the key alone, as an upsert starts from.\<close>

definition new_doc :: "bson_id \<Rightarrow> string option \<Rightarrow> stats_doc" where
  "new_doc i src =
     \<lparr>server_id = i, source = src, installation_count = None, rating = None,
      rating_count = None, first_seen = None, last_updated = None, active_installs = None,
      daily_active_users = None, monthly_active_users = None, claimed_from = None,
      claimed_at = None, claimed_to = None, weekly_growth = None\<rparr>"

text \<open>Decoding leaves the zero value in a field the document lacks.\<close>

definition or_zero :: "'a::zero option \<Rightarrow> 'a" where
  "or_zero v = (case v of None \<Rightarrow> 0 | Some x \<Rightarrow> x)"

definition or_empty :: "string option \<Rightarrow> string" where
  "or_empty v = (case v of None \<Rightarrow> '''' | Some x \<Rightarrow> x)"

definition decode_ServerStats :: "stats_doc \<Rightarrow> ServerStats option" where
  "decode_ServerStats d =
     (case server_id d of
        IdInt n \<Rightarrow> None
      | IdString s \<Rightarrow>
          Some \<lparr>ServerID = s, Source = or_empty (source d),
                InstallationCount = or_zero (installation_count d),
                Rating = or_zero (rating d), RatingCount = or_zero (rating_count d),
                FirstSeen = or_zero (first_seen d), LastUpdated = or_zero (last_updated d),
                ActiveInstalls = or_zero (active_installs d),
                DailyActiveUsers = or_zero (daily_active_users d),
                MonthlyActiveUsers = or_zero (monthly_active_users d),
                ClaimedFrom = or_empty (claimed_from d), ClaimedAt = or_zero (claimed_at d)\<rparr>)"

text \<open>
  \<open>{"$set": stats}\<close> for a struct value: every field is written, except that a field
  tagged \<open>omitempty\<close> is left as it is in the document when the struct holds its zero
  value.
\<close>

definition omitempty :: "'a::zero \<Rightarrow> 'a option \<Rightarrow> 'a option" where
  "omitempty v old = (if v = 0 then old else Some v)"

definition omitempty_string :: "string \<Rightarrow> string option \<Rightarrow> string option" where
  "omitempty_string v old = (if v = '''' then old else Some v)"

definition set_ServerStats :: "ServerStats \<Rightarrow> stats_doc \<Rightarrow> stats_doc" where
  "set_ServerStats s d =
     d\<lparr>server_id := IdString (ServerID s), source := Some (Source s),
       installation_count := Some (InstallationCount s), rating := Some (Rating s),
       rating_count := Some (RatingCount s), first_seen := Some (FirstSeen s),
       last_updated := Some (LastUpdated s),
       active_installs := omitempty (ActiveInstalls s) (active_installs d),
       daily_active_users := omitempty (DailyActiveUsers s) (daily_active_users d),
       monthly_active_users := omitempty (MonthlyActiveUsers s) (monthly_active_users d),
       claimed_from := omitempty_string (ClaimedFrom s) (claimed_from d),
       claimed_at := omitempty (ClaimedAt s) (claimed_at d)\<rparr>"

text \<open>The filter \<open>{"server_id": id, "source": src}\<close> and the unique index on that pair.\<close>

definition by_key :: "string \<Rightarrow> string \<Rightarrow> stats_doc \<Rightarrow> bool" where
  "by_key i src d = (server_id d = IdString i \<and> source d = Some src)"

definition stats_unique :: "(stats_doc \<Rightarrow> stats_doc \<Rightarrow> bool) list" where
  "stats_unique = [\<lambda>a b. server_id a = server_id b \<and> source a = source b]"

subsection \<open>The store and its mutex\<close>

text \<open>
  \<open>MongoDatabase\<close> guards its collection with a \<open>sync.RWMutex\<close>. The mutex is
  part of the state: \<open>Lock\<close> succeeds only when no writer and no reader holds it,
  \<open>RLock\<close> only when no writer holds it. The mutex is not reentrant: it does not
  know who holds it, so a second \<open>Lock\<close> by the holder itself waits like any other.
  A call that waits on a mutex nobody will release never returns; its outcome is
  \<open>Blocked\<close>, with the state at the point where it waits.
\<close>

record rwmutex =
  writer :: bool
  readers :: nat

definition Lock :: "rwmutex \<Rightarrow> rwmutex option" where
  "Lock m = (if writer m \<or> 0 < readers m then None else Some (m\<lparr>writer := True\<rparr>))"

definition Unlock :: "rwmutex \<Rightarrow> rwmutex" where
  "Unlock m = m\<lparr>writer := False\<rparr>"

definition RLock :: "rwmutex \<Rightarrow> rwmutex option" where
  "RLock m = (if writer m then None else Some (m\<lparr>readers := Suc (readers m)\<rparr>))"

definition RUnlock :: "rwmutex \<Rightarrow> rwmutex" where
  "RUnlock m = m\<lparr>readers := readers m - 1\<rparr>"

record MongoDatabase =
  collection :: "stats_doc list"
  mu :: rwmutex

datatype ('a, 's) outcome = Blocked 's | Returned 'a 's

text \<open>\<open>db.mu.Lock(); defer db.mu.Unlock()\<close> around a method body, and the read variant.\<close>

definition with_Lock :: "(MongoDatabase \<Rightarrow> ('a, MongoDatabase) outcome) \<Rightarrow> MongoDatabase
     \<Rightarrow> ('a, MongoDatabase) outcome" where
  "with_Lock body db =
     (case Lock (mu db) of
        None \<Rightarrow> Blocked db
      | Some m \<Rightarrow>
          (case body (db\<lparr>mu := m\<rparr>) of
             Blocked db' \<Rightarrow> Blocked db'
           | Returned r db' \<Rightarrow> Returned r (db'\<lparr>mu := Unlock (mu db')\<rparr>)))"

definition with_RLock :: "(MongoDatabase \<Rightarrow> ('a, MongoDatabase) outcome) \<Rightarrow> MongoDatabase
     \<Rightarrow> ('a, MongoDatabase) outcome" where
  "with_RLock body db =
     (case RLock (mu db) of
        None \<Rightarrow> Blocked db
      | Some m \<Rightarrow>
          (case body (db\<lparr>mu := m\<rparr>) of
             Blocked db' \<Rightarrow> Blocked db'
           | Returned r db' \<Rightarrow> Returned r (db'\<lparr>mu := RUnlock (mu db')\<rparr>)))"

subsection \<open>\<open>GetStats\<close>, \<open>UpsertStats\<close>, \<open>UpdateRating\<close>\<close>

definition default_source :: "string \<Rightarrow> string" where
  "default_source src = (if src = '''' then SourceRegistry else src)"

definition empty_stats :: "string \<Rightarrow> string \<Rightarrow> time \<Rightarrow> ServerStats" where
  "empty_stats i src now =
     \<lparr>ServerID = i, Source = src, InstallationCount = 0, Rating = 0, RatingCount = 0,
      FirstSeen = now, LastUpdated = now, ActiveInstalls = 0, DailyActiveUsers = 0,
      MonthlyActiveUsers = 0, ClaimedFrom = '''', ClaimedAt = 0\<rparr>"

definition GetStats :: "time \<Rightarrow> string \<Rightarrow> string \<Rightarrow> MongoDatabase
     \<Rightarrow> (error + ServerStats, MongoDatabase) outcome" where
  "GetStats now serverID source0 =
     with_RLock (\<lambda>db.
       case SanitizeServerID serverID of
         Inl e \<Rightarrow> Returned (Inl e) db
       | Inr sanitizedServerID \<Rightarrow>
           (case ValidateSource (default_source source0) of
              Inl e \<Rightarrow> Returned (Inl e) db
            | Inr validatedSource \<Rightarrow>
                (case find_one (by_key sanitizedServerID validatedSource) (collection db) of
                   None \<Rightarrow> Returned (Inr (empty_stats sanitizedServerID validatedSource now)) db
                 | Some d \<Rightarrow>
                     (case decode_ServerStats d of
                        None \<Rightarrow> Returned (Inl ErrDecode) db
                      | Some stats \<Rightarrow> Returned (Inr stats) db))))"

text \<open>
  \<open>UpsertStats\<close> also writes the defaulted source and the time into the caller's struct;
  no caller reads them back, so the model returns the error alone.
\<close>

definition UpsertStats :: "time \<Rightarrow> ServerStats \<Rightarrow> MongoDatabase
     \<Rightarrow> (error option, MongoDatabase) outcome" where
  "UpsertStats now stats0 =
     with_Lock (\<lambda>db.
       let stats1 = (if Source stats0 = '''' then stats0\<lparr>Source := SourceRegistry\<rparr> else stats0);
           stats = stats1\<lparr>LastUpdated := now\<rparr>
       in case update_one stats_unique (by_key (ServerID stats) (Source stats))
                 (set_ServerStats stats)
                 (Some (set_ServerStats stats
                         (new_doc (IdString (ServerID stats)) (Some (Source stats)))))
                 (collection db) of
            Inl e \<Rightarrow> Returned (Some (ErrWrite e)) db
          | Inr (c, n) \<Rightarrow> Returned None (db\<lparr>collection := c\<rparr>))"

text \<open>
  \<open>UpdateRating\<close> reads the current record (the zero struct when there is none),
  computes the new mean and writes it. The filter carries the validated source, the
  \<open>$set\<close> the source as passed (after defaulting).
\<close>

definition zero_stats :: ServerStats where
  "zero_stats =
     \<lparr>ServerID = '''', Source = '''', InstallationCount = 0, Rating = 0, RatingCount = 0,
      FirstSeen = 0, LastUpdated = 0, ActiveInstalls = 0, DailyActiveUsers = 0,
      MonthlyActiveUsers = 0, ClaimedFrom = '''', ClaimedAt = 0\<rparr>"

text \<open>
  \<open>FindOne(filter).Decode(&current)\<close> where \<open>ErrNoDocuments\<close> is tolerated: the
  struct keeps its zero value when no document matches; \<open>None\<close> is a decoding error.
\<close>

definition current_stats :: "string \<Rightarrow> string \<Rightarrow> stats_doc list \<Rightarrow> ServerStats option" where
  "current_stats i src c =
     (case find_one (by_key i src) c of
        None \<Rightarrow> Some zero_stats
      | Some d \<Rightarrow> decode_ServerStats d)"

definition set_rating :: "real \<Rightarrow> int \<Rightarrow> time \<Rightarrow> string \<Rightarrow> stats_doc \<Rightarrow> stats_doc" where
  "set_rating newAvgRating newRatingCount now src d =
     d\<lparr>rating := Some newAvgRating, rating_count := Some newRatingCount,
       last_updated := Some now, source := Some src\<rparr>"

definition UpdateRating :: "time \<Rightarrow> string \<Rightarrow> string \<Rightarrow> real \<Rightarrow> MongoDatabase
     \<Rightarrow> (error option, MongoDatabase) outcome" where
  "UpdateRating now serverID source0 newRating =
     with_Lock (\<lambda>db.
       case SanitizeServerID serverID of
         Inl e \<Rightarrow> Returned (Some e) db
       | Inr sanitizedServerID \<Rightarrow>
           (let src = default_source source0 in
            case ValidateSource src of
              Inl e \<Rightarrow> Returned (Some e) db
            | Inr validatedSource \<Rightarrow>
                (case current_stats sanitizedServerID validatedSource (collection db) of
                   None \<Rightarrow> Returned (Some ErrDecode) db
                 | Some current \<Rightarrow>
                     (let totalRating = Rating current * real_of_int (RatingCount current);
                          newRatingCount = RatingCount current + 1;
                          newAvgRating = (totalRating + newRating) / real_of_int newRatingCount
                      in case update_one stats_unique (by_key sanitizedServerID validatedSource)
                                (set_rating newAvgRating newRatingCount now src)
                                (Some ((set_rating newAvgRating newRatingCount now src
                                         (new_doc (IdString sanitizedServerID) (Some validatedSource)))
                                       \<lparr>first_seen := Some now\<rparr>))
                                (collection db) of
                           Inl e \<Rightarrow> Returned (Some (ErrWrite e)) db
                         | Inr (c, n) \<Rightarrow> Returned None (db\<lparr>collection := c\<rparr>)))))"

subsection \<open>\<open>TransferStats\<close>\<close>

text \<open>
  The record \<open>TransferStats\<close> writes for the target: the merge of target and source when
  the target exists, a copy of the source otherwise, stamped with the claim.
\<close>

definition newStats ::
  "time \<Rightarrow> ServerStats \<Rightarrow> ServerStats option \<Rightarrow> string \<Rightarrow> string \<Rightarrow> string \<Rightarrow> ServerStats" where
  "newStats now sourceStats target toServerID fromSource toSource =
     (let merged =
        (case target of
           Some targetStats \<Rightarrow>
             (let n0 = zero_stats\<lparr>ServerID := toServerID, Source := toSource,
                        InstallationCount := InstallationCount targetStats + InstallationCount sourceStats,
                        RatingCount := RatingCount targetStats + RatingCount sourceStats,
                        LastUpdated := now\<rparr>;
                  n1 = (if RatingCount n0 > 0
                        then n0\<lparr>Rating :=
                               (Rating targetStats * real_of_int (RatingCount targetStats)
                                + Rating sourceStats * real_of_int (RatingCount sourceStats))
                               / real_of_int (RatingCount n0)\<rparr>
                        else n0)
              in n1\<lparr>ActiveInstalls := ActiveInstalls targetStats,
                    DailyActiveUsers := DailyActiveUsers targetStats,
                    MonthlyActiveUsers := MonthlyActiveUsers targetStats\<rparr>)
         | None \<Rightarrow> sourceStats\<lparr>ServerID := toServerID, Source := toSource, LastUpdated := now\<rparr>)
      in merged\<lparr>ClaimedFrom := fromSource, ClaimedAt := now\<rparr>)"

definition set_claimed :: "time \<Rightarrow> string \<Rightarrow> stats_doc \<Rightarrow> stats_doc" where
  "set_claimed now toServerID d = d\<lparr>claimed_at := Some now, claimed_to := Some toServerID\<rparr>"

definition TransferStats ::
  "time \<Rightarrow> string \<Rightarrow> string \<Rightarrow> string \<Rightarrow> string \<Rightarrow> MongoDatabase
     \<Rightarrow> (error option, MongoDatabase) outcome" where
  "TransferStats now fromServerID toServerID fromSource0 toSource0 =
     with_Lock (\<lambda>db.
       let fromSource = (if fromSource0 = '''' then SourceCommunity else fromSource0);
           toSource = (if toSource0 = '''' then SourceRegistry else toSource0)
       in case find_one (by_key fromServerID fromSource) (collection db) of
            None \<Rightarrow> Returned None db
          | Some sdoc \<Rightarrow>
              (case decode_ServerStats sdoc of
                 None \<Rightarrow> Returned (Some ErrDecode) db
               | Some sourceStats \<Rightarrow>
                   (case (case find_one (by_key toServerID toSource) (collection db) of
                            None \<Rightarrow> Some None
                          | Some tdoc \<Rightarrow> map_option Some (decode_ServerStats tdoc)) of
                      None \<Rightarrow> Returned (Some ErrDecode) db
                    | Some target \<Rightarrow>
                        (case UpsertStats now
                                (newStats now sourceStats target toServerID fromSource toSource) db of
                           Blocked db' \<Rightarrow> Blocked db'
                         | Returned (Some e) db' \<Rightarrow> Returned (Some e) db'
                         | Returned None db' \<Rightarrow>
                             (case update_one stats_unique (by_key fromServerID fromSource)
                                     (set_claimed now toServerID) None (collection db') of
                                Inl e \<Rightarrow> Returned None db'
                              | Inr (c, n) \<Rightarrow> Returned None (db'\<lparr>collection := c\<rparr>))))))"

section \<open>The feedback store (\<open>extensions/stats/feedback_database.go\<close>)\<close>

text \<open>
  The Go struct \<open>ServerFeedback\<close>. A document of the collection \<open>server_feedback\<close>
  is the marshalled struct: every stored field is always written (\<open>comment\<close> is
  omitted when empty and reads back as empty), and the two display fields are never
  stored. A stored document is therefore a \<open>ServerFeedback\<close> value with empty display
  fields. The store has no mutex.
\<close>

record ServerFeedback =
  fb_ID :: string
  fb_ServerID :: string
  fb_Source :: string
  fb_UserID :: string
  fb_Rating :: real
  fb_Comment :: string
  fb_CreatedAt :: time
  fb_UpdatedAt :: time
  fb_IsPublic :: bool
  fb_Username :: string
  fb_UserAvatar :: string

record FeedbackResponse =
  Feedback :: "ServerFeedback list"
  TotalCount :: int
  HasMore :: bool

datatype FeedbackSortOrder =
    FeedbackSortNewest | FeedbackSortOldest | FeedbackSortRatingHigh | FeedbackSortRatingLow

definition stored :: "ServerFeedback \<Rightarrow> ServerFeedback" where
  "stored fb = fb\<lparr>fb_Username := '''', fb_UserAvatar := ''''\<rparr>"

text \<open>The unique indexes: \<open>_id\<close>, and \<open>(server_id, user_id, source)\<close>.\<close>

definition feedback_unique :: "(ServerFeedback \<Rightarrow> ServerFeedback \<Rightarrow> bool) list" where
  "feedback_unique =
     [\<lambda>a b. fb_ID a = fb_ID b,
      \<lambda>a b. fb_ServerID a = fb_ServerID b \<and> fb_UserID a = fb_UserID b \<and> fb_Source a = fb_Source b]"

text \<open>
  \<open>CreateFeedback\<close> fills in the struct it is given (the caller reads it back) and
  inserts it. \<open>newID\<close> stands for \<open>uuid.New().String()\<close>.
\<close>

definition CreateFeedback ::
  "time \<Rightarrow> string \<Rightarrow> ServerFeedback \<Rightarrow> ServerFeedback list
     \<Rightarrow> error + (ServerFeedback \<times> ServerFeedback list)" where
  "CreateFeedback now newID feedback0 c =
     (if fb_ServerID feedback0 = '''' \<or> fb_UserID feedback0 = '''' then Inl ErrRequired
      else case SanitizeServerID (fb_ServerID feedback0) of
        Inl e \<Rightarrow> Inl e
      | Inr sanitizedServerID \<Rightarrow>
          (let f1 = feedback0\<lparr>fb_ServerID := sanitizedServerID\<rparr>;
               f2 = (if fb_Source f1 = '''' then f1\<lparr>fb_Source := SourceRegistry\<rparr> else f1)
           in case ValidateSource (fb_Source f2) of
                Inl e \<Rightarrow> Inl e
              | Inr validatedSource \<Rightarrow>
                  (let f3 = f2\<lparr>fb_Source := validatedSource\<rparr>;
                       f4 = (if fb_ID f3 = '''' then f3\<lparr>fb_ID := newID\<rparr> else f3);
                       f5 = f4\<lparr>fb_CreatedAt := now, fb_UpdatedAt := now\<rparr>;
                       feedback = (if \<not> fb_IsPublic f5 then f5\<lparr>fb_IsPublic := True\<rparr> else f5)
                   in case insert_one feedback_unique (stored feedback) c of
                        Inl e \<Rightarrow> if e = DuplicateKey then Inl ErrDuplicateFeedback else Inl (ErrWrite e)
                      | Inr c' \<Rightarrow> Inr (feedback, c'))))"


definition GetUserFeedback ::
  "string \<Rightarrow> string \<Rightarrow> string \<Rightarrow> ServerFeedback list \<Rightarrow> error + ServerFeedback" where
  "GetUserFeedback serverID userID source0 c =
     (case SanitizeServerID serverID of
        Inl e \<Rightarrow> Inl e
      | Inr sanitizedServerID \<Rightarrow>
          (case ValidateSource (default_source source0) of
             Inl e \<Rightarrow> Inl e
           | Inr validatedSource \<Rightarrow>
               (case find_one (\<lambda>d. fb_ServerID d = sanitizedServerID \<and> fb_UserID d = userID
                                     \<and> fb_Source d = validatedSource) c of
                  None \<Rightarrow> Inl ErrFeedbackNotFound
                | Some d \<Rightarrow> Inr d)))"

text \<open>
  Sorting is stable insertion sort: documents that compare equal keep their storage
  order (the server leaves the order of ties open). \<open>precedes a b\<close> says that \<open>a\<close>
  sorts strictly before \<open>b\<close>.
\<close>

fun insert_before :: "('a \<Rightarrow> 'a \<Rightarrow> bool) \<Rightarrow> 'a \<Rightarrow> 'a list \<Rightarrow> 'a list" where
  "insert_before precedes x [] = [x]"
| "insert_before precedes x (y # ys) =
     (if precedes y x then y # insert_before precedes x ys else x # y # ys)"

definition sort_by :: "('a \<Rightarrow> 'a \<Rightarrow> bool) \<Rightarrow> 'a list \<Rightarrow> 'a list" where
  "sort_by precedes xs = foldr (insert_before precedes) xs []"

definition feedback_before :: "FeedbackSortOrder \<Rightarrow> ServerFeedback \<Rightarrow> ServerFeedback \<Rightarrow> bool" where
  "feedback_before order a b =
     (case order of
        FeedbackSortNewest \<Rightarrow> fb_CreatedAt a > fb_CreatedAt b
      | FeedbackSortOldest \<Rightarrow> fb_CreatedAt a < fb_CreatedAt b
      | FeedbackSortRatingHigh \<Rightarrow>
          fb_Rating a > fb_Rating b \<or> (fb_Rating a = fb_Rating b \<and> fb_CreatedAt a > fb_CreatedAt b)
      | FeedbackSortRatingLow \<Rightarrow>
          fb_Rating a < fb_Rating b \<or> (fb_Rating a = fb_Rating b \<and> fb_CreatedAt a > fb_CreatedAt b))"

definition GetServerFeedback ::
  "string \<Rightarrow> string \<Rightarrow> int \<Rightarrow> int \<Rightarrow> FeedbackSortOrder \<Rightarrow> ServerFeedback list
     \<Rightarrow> error + FeedbackResponse" where
  "GetServerFeedback serverID source0 limit0 offset0 order c =
     (case SanitizeServerID serverID of
        Inl e \<Rightarrow> Inl e
      | Inr sanitizedServerID \<Rightarrow>
          (case ValidateSource (default_source source0) of
             Inl e \<Rightarrow> Inl e
           | Inr validatedSource \<Rightarrow>
               (let matching = filter (\<lambda>d. fb_ServerID d = sanitizedServerID
                                             \<and> fb_Source d = validatedSource \<and> fb_IsPublic d) c;
                    totalCount = int (length matching);
                    limit = (if limit0 \<le> 0 \<or> limit0 > 100 then 20 else limit0);
                    offset = (if offset0 < 0 then 0 else offset0);
                    feedbackList = take (nat limit) (drop (nat offset) (sort_by (feedback_before order) matching))
                in Inr \<lparr>Feedback = feedbackList, TotalCount = totalCount,
                         HasMore = (offset + limit < totalCount)\<rparr>)))"

text \<open>
  \<open>UpdateFeedback\<close> sets rating, comment and the update time on the document with the
  given id and user; \<open>DeleteFeedback\<close> deletes the document with the given id and user.
  Neither can change an index key.
\<close>

definition UpdateFeedback ::
  "time \<Rightarrow> ServerFeedback \<Rightarrow> ServerFeedback list \<Rightarrow> error + (ServerFeedback \<times> ServerFeedback list)" where
  "UpdateFeedback now feedback0 c =
     (if fb_ID feedback0 = '''' then Inl ErrRequired
      else let feedback = feedback0\<lparr>fb_UpdatedAt := now\<rparr>
           in case update_one feedback_unique
                     (\<lambda>d. fb_ID d = fb_ID feedback \<and> fb_UserID d = fb_UserID feedback)
                     (\<lambda>d. d\<lparr>fb_Rating := fb_Rating feedback, fb_Comment := fb_Comment feedback,
                              fb_UpdatedAt := fb_UpdatedAt feedback\<rparr>)
                     None c of
                Inl e \<Rightarrow> Inl (ErrWrite e)
              | Inr (c', matched) \<Rightarrow>
                  if matched = 0 then Inl ErrFeedbackNotFound else Inr (feedback, c'))"


section \<open>Strings, the cache and the handler state\<close>

subsection \<open>\<open>strings\<close>, \<open>strconv\<close> and \<open>fmt\<close>\<close>

definition TrimPrefix :: "string \<Rightarrow> string \<Rightarrow> string" where
  "TrimPrefix s p = (if take (length p) s = p then drop (length p) s else s)"

text \<open>\<open>strings.Split(s, sep)\<close> for a one-character separator; the empty string splits into one empty part.\<close>

fun Split :: "string \<Rightarrow> char \<Rightarrow> string list" where
  "Split [] sep = [[]]"
| "Split (ch # cs) sep =
     (if ch = sep then [] # Split cs sep
      else case Split cs sep of
             w # ws \<Rightarrow> (ch # w) # ws
           | [] \<Rightarrow> [[ch]])"

text \<open>
  \<open>strconv.Atoi\<close>: an optional sign and decimal digits, within the range of a 64-bit
  \<open>int\<close>; \<open>None\<close> is the error.
\<close>

definition parse_digits :: "string \<Rightarrow> nat option" where
  "parse_digits s =
     (if s \<noteq> [] \<and> list_all is_digit s
      then Some (foldl (\<lambda>a ch. 10 * a + (of_char ch - 48)) 0 s)
      else None)"

definition in_int64 :: "int \<Rightarrow> int option" where
  "in_int64 v = (if - (2 ^ 63) \<le> v \<and> v < 2 ^ 63 then Some v else None)"

definition Atoi :: "string \<Rightarrow> int option" where
  "Atoi s =
     (case s of
        [] \<Rightarrow> None
      | ch # rest \<Rightarrow>
          if ch = CHR ''-'' then
            (case parse_digits rest of None \<Rightarrow> None | Some n \<Rightarrow> in_int64 (- int n))
          else if ch = CHR ''+'' then
            (case parse_digits rest of None \<Rightarrow> None | Some n \<Rightarrow> in_int64 (int n))
          else
            (case parse_digits s of None \<Rightarrow> None | Some n \<Rightarrow> in_int64 (int n)))"

text \<open>The verb \<open>%d\<close> of \<open>fmt.Sprintf\<close>: the decimal digits, with a minus sign when negative.\<close>

definition digit_char :: "nat \<Rightarrow> char" where
  "digit_char n = ''0123456789'' ! n"

function digits :: "nat \<Rightarrow> string" where
  "digits n = (if n < 10 then [digit_char n] else digits (n div 10) @ [digit_char (n mod 10)])"
  by pat_completeness auto
termination
  by (relation "measure id") auto

declare digits.simps [simp del]

definition itoa :: "int \<Rightarrow> string" where
  "itoa i = (if i < 0 then CHR ''-'' # digits (nat (- i)) else digits (nat i))"

subsection \<open>The catalogue and the response values\<close>

text \<open>
  The base registry's \<open>model.Server\<close> is not part of this repository; of its fields only
  the identity matters here. \<open>ExtendedServer\<close> is the struct of \<open>extensions/vp/model\<close>:
  a server with its statistics. It has no other fields.
\<close>

record Server =
  srv_ID :: string
  srv_Name :: string

record ExtendedServer =
  es_Server :: Server
  es_InstallationCount :: int
  es_Rating :: real
  es_RatingCount :: int
  es_ActiveInstalls :: int
  es_WeeklyGrowth :: real



text \<open>
  What a handler writes as the body of its response, and what it stores in the cache.
  The text of an error response is not modelled.
\<close>

datatype payload =
    ErrorText
  | FeedbackList FeedbackResponse
  | FeedbackSubmitted ServerFeedback "ServerStats option"
  | FeedbackUpdated ServerFeedback
  | Success
  | RatingSubmitted "ServerStats option"
  | Trending int "ExtendedServer list"

record Response =
  Status :: nat
  XCache :: string
  Payload :: payload

definition http_Error :: "nat \<Rightarrow> Response" where
  "http_Error code = \<lparr>Status = code, XCache = '''', Payload = ErrorText\<rparr>"

definition StatusOK :: nat where "StatusOK = 200"
definition StatusBadRequest :: nat where "StatusBadRequest = 400"
definition StatusMethodNotAllowed :: nat where "StatusMethodNotAllowed = 405"
definition StatusConflict :: nat where "StatusConflict = 409"
definition StatusInternalServerError :: nat where "StatusInternalServerError = 500"

subsection \<open>\<open>CacheService\<close>\<close>

text \<open>
  The cache is a Go map from keys to entries with an expiry time. Each of its methods
  takes the cache's own mutex and releases it before returning, and none calls another,
  so the mutex is left out. \<open>Delete\<close> removes the entry stored under exactly the given
  key. The background sweep only removes entries that \<open>Get\<close> already treats as absent.
\<close>

record cacheEntry =
  data :: payload
  expiresAt :: time

record CacheService =
  cache :: "string \<rightharpoonup> cacheEntry"
  ttl :: time

definition cache_Get :: "time \<Rightarrow> string \<Rightarrow> CacheService \<Rightarrow> payload option" where
  "cache_Get now key c =
     (case cache c key of
        None \<Rightarrow> None
      | Some entry \<Rightarrow> if now > expiresAt entry then None else Some (data entry))"

definition cache_Set :: "time \<Rightarrow> string \<Rightarrow> payload \<Rightarrow> CacheService \<Rightarrow> CacheService" where
  "cache_Set now key v c = c\<lparr>cache := (cache c)(key \<mapsto> \<lparr>data = v, expiresAt = now + ttl c\<rparr>)\<rparr>"

definition cache_Delete :: "string \<Rightarrow> CacheService \<Rightarrow> CacheService" where
  "cache_Delete key c = c\<lparr>cache := (cache c)(key := None)\<rparr>"

subsection \<open>Requests and the handler state\<close>

text \<open>
  A request: method, path, query parameters and the JSON body decoded into the struct
  the handler expects (\<open>None\<close> when it does not decode). \<open>VPHandlers\<close> holds the
  catalogue lookup \<open>GetByID\<close> of the base registry, the two stores and the cache. The
  router always constructs the feedback store, so it is never \<open>nil\<close> here.
\<close>

record 'b Request =
  Method :: string
  Path :: string
  Query :: "(string \<times> string) list"
  Body :: "'b option"

definition query_Get :: "'b Request \<Rightarrow> string \<Rightarrow> string" where
  "query_Get r name = (case map_of (Query r) name of None \<Rightarrow> '''' | Some v \<Rightarrow> v)"

record VPHandlers =
  service :: "string \<Rightarrow> Server option"
  statsDB :: MongoDatabase
  feedbackDB :: "ServerFeedback list"
  statsCache :: CacheService

record RatingRequest =
  rq_Rating :: real
  rq_Comment :: string
  rq_Source :: string
  rq_UserID :: string
  rq_Timestamp :: string


section \<open>The feedback handlers (\<open>extensions/vp/handlers/feedback.go\<close>)\<close>

definition path_parts :: "string \<Rightarrow> string list" where
  "path_parts path = Split (TrimPrefix path ''/vp/servers/'') (CHR ''/'')"

text \<open>\<open>invalidateFeedbackCache\<close>: five calls of \<open>Delete\<close>, each with one literal key.\<close>

definition invalidateFeedbackCache :: "string \<Rightarrow> string \<Rightarrow> CacheService \<Rightarrow> CacheService" where
  "invalidateFeedbackCache serverID src c0 =
     (let c1 = cache_Delete (''vp:feedback:'' @ serverID @ '':*'') c0;
          c2 = cache_Delete (''vp:server:'' @ serverID) c1;
          c3 = cache_Delete (''vp:stats:'' @ serverID) c2;
          c4 = (if src \<noteq> '''' then cache_Delete (''vp:stats:'' @ serverID @ '':'' @ src) c3 else c3)
      in cache_Delete ''vp:servers:'' c4)"

definition sort_name :: "FeedbackSortOrder \<Rightarrow> string" where
  "sort_name order =
     (case order of
        FeedbackSortNewest \<Rightarrow> ''newest''
      | FeedbackSortOldest \<Rightarrow> ''oldest''
      | FeedbackSortRatingHigh \<Rightarrow> ''rating_high''
      | FeedbackSortRatingLow \<Rightarrow> ''rating_low'')"

definition feedback_cache_key :: "string \<Rightarrow> string \<Rightarrow> int \<Rightarrow> int \<Rightarrow> FeedbackSortOrder \<Rightarrow> string" where
  "feedback_cache_key serverID src limit offset order =
     ''vp:feedback:'' @ serverID @ '':'' @ src @ '':'' @ itoa limit @ '':'' @ itoa offset
       @ '':'' @ sort_name order"

definition parse_limit :: "string \<Rightarrow> int" where
  "parse_limit limitStr =
     (if limitStr \<noteq> '''' then
        (case Atoi limitStr of
           Some parsedLimit \<Rightarrow> if parsedLimit > 0 \<and> parsedLimit \<le> 100 then parsedLimit else 20
         | None \<Rightarrow> 20)
      else 20)"

definition parse_offset :: "string \<Rightarrow> int" where
  "parse_offset offsetStr =
     (if offsetStr \<noteq> '''' then
        (case Atoi offsetStr of
           Some parsedOffset \<Rightarrow> if parsedOffset \<ge> 0 then parsedOffset else 0
         | None \<Rightarrow> 0)
      else 0)"

definition parse_sort :: "string \<Rightarrow> FeedbackSortOrder" where
  "parse_sort sortStr =
     (if sortStr = ''oldest'' then FeedbackSortOldest
      else if sortStr = ''rating_high'' then FeedbackSortRatingHigh
      else if sortStr = ''rating_low'' then FeedbackSortRatingLow
      else FeedbackSortNewest)"

definition empty_FeedbackResponse :: FeedbackResponse where
  "empty_FeedbackResponse = \<lparr>Feedback = [], TotalCount = 0, HasMore = False\<rparr>"

definition GetServerFeedbackHandler :: "time \<Rightarrow> unit Request \<Rightarrow> VPHandlers \<Rightarrow> Response \<times> VPHandlers" where
  "GetServerFeedbackHandler now r h =
     (let parts = path_parts (Path r) in
      if length parts < 2 \<or> parts ! 0 = '''' \<or> parts ! 1 \<noteq> ''feedback''
      then (http_Error StatusBadRequest, h)
      else
        let serverID = parts ! 0;
            limit = parse_limit (query_Get r ''limit'');
            offset = parse_offset (query_Get r ''offset'');
            order = parse_sort (query_Get r ''sort'');
            src = default_source (query_Get r ''source'');
            cacheKey = feedback_cache_key serverID src limit offset order
        in case cache_Get now cacheKey (statsCache h) of
             Some cached \<Rightarrow> (\<lparr>Status = StatusOK, XCache = ''HIT'', Payload = cached\<rparr>, h)
           | None \<Rightarrow>
               (let feedbackResponse =
                      (case GetServerFeedback serverID src limit offset order (feedbackDB h) of
                         Inl e \<Rightarrow> empty_FeedbackResponse
                       | Inr resp \<Rightarrow> resp)
                in (\<lparr>Status = StatusOK, XCache = ''MISS'', Payload = FeedbackList feedbackResponse\<rparr>,
                    h\<lparr>statsCache := cache_Set now cacheKey (FeedbackList feedbackResponse)
                                       (statsCache h)\<rparr>)))"

text \<open>
  \<open>SubmitFeedbackHandler\<close>: create or update the user's feedback, then update the rating
  statistics, invalidate the cache and read the statistics back. \<open>newID\<close> stands for
  \<open>uuid.New().String()\<close>. The handler can only fail to return by waiting on the
  statistics store's mutex.
\<close>

definition ok :: "payload \<Rightarrow> Response" where
  "ok p = \<lparr>Status = StatusOK, XCache = '''', Payload = p\<rparr>"

definition after_rating ::
  "time \<Rightarrow> string \<Rightarrow> string \<Rightarrow> real \<Rightarrow> (ServerStats option \<Rightarrow> payload) \<Rightarrow> VPHandlers
     \<Rightarrow> (Response, VPHandlers) outcome" where
  "after_rating now serverID src newRating reply h =
     (case UpdateRating now serverID src newRating (statsDB h) of
        Blocked db \<Rightarrow> Blocked (h\<lparr>statsDB := db\<rparr>)
      | Returned err db \<Rightarrow>
          (let h1 = h\<lparr>statsDB := db,
                      statsCache := invalidateFeedbackCache serverID src (statsCache h)\<rparr>
           in case GetStats now serverID src (statsDB h1) of
                Blocked db' \<Rightarrow> Blocked (h1\<lparr>statsDB := db'\<rparr>)
              | Returned (Inl e) db' \<Rightarrow> Returned (ok (reply None)) (h1\<lparr>statsDB := db'\<rparr>)
              | Returned (Inr updatedStats) db' \<Rightarrow>
                  Returned (ok (reply (Some updatedStats))) (h1\<lparr>statsDB := db'\<rparr>)))"

definition SubmitFeedbackHandler ::
  "time \<Rightarrow> string \<Rightarrow> RatingRequest Request \<Rightarrow> VPHandlers \<Rightarrow> (Response, VPHandlers) outcome" where
  "SubmitFeedbackHandler now newID r h =
     (if Method r \<noteq> ''POST'' then Returned (http_Error StatusMethodNotAllowed) h
      else
        let parts = path_parts (Path r) in
        if length parts < 2 \<or> parts ! 0 = '''' then Returned (http_Error StatusBadRequest) h
        else
          let serverID = parts ! 0 in
          case Body r of
            None \<Rightarrow> Returned (http_Error StatusBadRequest) h
          | Some ratingReq \<Rightarrow>
              if rq_Rating ratingReq < 1 \<or> rq_Rating ratingReq > 5
              then Returned (http_Error StatusBadRequest) h
              else if length (rq_Comment ratingReq) > 1000
              then Returned (http_Error StatusBadRequest) h
              else if rq_Source ratingReq \<noteq> '''' \<and> rq_Source ratingReq \<noteq> SourceRegistry
                      \<and> rq_Source ratingReq \<noteq> SourceCommunity
              then Returned (http_Error StatusBadRequest) h
              else
                let src = default_source (rq_Source ratingReq) in
                if rq_UserID ratingReq = '''' then Returned (http_Error StatusBadRequest) h
                else
                  let feedback =
                        \<lparr>fb_ID = '''', fb_ServerID = serverID, fb_Source = src,
                         fb_UserID = rq_UserID ratingReq, fb_Rating = rq_Rating ratingReq,
                         fb_Comment = rq_Comment ratingReq, fb_CreatedAt = 0, fb_UpdatedAt = 0,
                         fb_IsPublic = True, fb_Username = '''', fb_UserAvatar = ''''\<rparr>
                  in case GetUserFeedback serverID (rq_UserID ratingReq) src (feedbackDB h) of
                       Inr existingFeedback \<Rightarrow>
                         (case UpdateFeedback now
                                 (feedback\<lparr>fb_ID := fb_ID existingFeedback,
                                            fb_CreatedAt := fb_CreatedAt existingFeedback\<rparr>)
                                 (feedbackDB h) of
                            Inl e \<Rightarrow> Returned (http_Error StatusInternalServerError) h
                          | Inr (fb, c) \<Rightarrow>
                              after_rating now serverID src (rq_Rating ratingReq)
                                (FeedbackSubmitted fb) (h\<lparr>feedbackDB := c\<rparr>))
                     | Inl e \<Rightarrow>
                         if e \<noteq> ErrFeedbackNotFound
                         then Returned (http_Error StatusInternalServerError) h
                         else
                           (case CreateFeedback now newID (feedback\<lparr>fb_ID := newID\<rparr>)
                                   (feedbackDB h) of
                              Inl e' \<Rightarrow>
                                if e' = ErrDuplicateFeedback
                                then Returned (http_Error StatusConflict) h
                                else Returned (http_Error StatusInternalServerError) h
                            | Inr (fb, c) \<Rightarrow>
                                after_rating now serverID src (rq_Rating ratingReq)
                                  (FeedbackSubmitted fb) (h\<lparr>feedbackDB := c\<rparr>)))"



section \<open>\<open>SyncAnalyticsData\<close> (\<open>extensions/stats/database.go\<close>)\<close>

text \<open>
  The Go struct \<open>StatsUpdateRequest\<close>. It has no field for a server id.
\<close>

record StatsUpdateRequest =
  InstallationDelta :: int
  su_ActiveInstalls :: int
  su_DailyActiveUsers :: int
  su_MonthlyActiveUsers :: int
  su_LastUpdated :: time

text \<open>
  For each update, one upserting \<open>UpdateOne\<close> with the filter
  \<open>{"server_id": update.InstallationDelta}\<close>: the filter value is the integer of the
  struct, which equals no string.
\<close>

definition by_int_id :: "int \<Rightarrow> stats_doc \<Rightarrow> bool" where
  "by_int_id n d = (server_id d = IdInt n)"

definition set_analytics :: "StatsUpdateRequest \<Rightarrow> time \<Rightarrow> stats_doc \<Rightarrow> stats_doc" where
  "set_analytics update now d =
     d\<lparr>active_installs := Some (su_ActiveInstalls update),
       daily_active_users := Some (su_DailyActiveUsers update),
       monthly_active_users := Some (su_MonthlyActiveUsers update),
       last_updated := Some now\<rparr>"

text \<open>The documents that belong to a server: those whose \<open>server_id\<close> is a string.\<close>

definition is_server_record :: "stats_doc \<Rightarrow> bool" where
  "is_server_record d = (case server_id d of IdString s \<Rightarrow> True | IdInt n \<Rightarrow> False)"

text \<open>
  \<open>BulkWrite\<close> is ordered: the writes are applied one after the other, and the first
  one that fails ends the batch, the earlier ones staying applied.
\<close>

fun BulkWrite :: "time \<Rightarrow> StatsUpdateRequest list \<Rightarrow> stats_doc list \<Rightarrow> mongo_error option \<times> stats_doc list" where
  "BulkWrite now [] c = (None, c)"
| "BulkWrite now (update # rest) c =
     (case update_one stats_unique (by_int_id (InstallationDelta update))
             (set_analytics update now)
             (Some (set_analytics update now (new_doc (IdInt (InstallationDelta update)) None)))
             c of
        Inl e \<Rightarrow> (Some e, c)
      | Inr (c', n) \<Rightarrow> BulkWrite now rest c')"

definition SyncAnalyticsData ::
  "time \<Rightarrow> StatsUpdateRequest list \<Rightarrow> MongoDatabase \<Rightarrow> (error option, MongoDatabase) outcome" where
  "SyncAnalyticsData now updates =
     with_Lock (\<lambda>db.
       if length updates > 0 then
         (case BulkWrite now updates (collection db) of
            (Some e, c) \<Rightarrow> Returned (Some (ErrWrite e)) (db\<lparr>collection := c\<rparr>)
          | (None, c) \<Rightarrow> Returned None (db\<lparr>collection := c\<rparr>))
       else Returned None db)"

section \<open>The analytics store (\<open>RecordActivity\<close>, \<open>UpdateAnalyticsMetrics\<close>)\<close>

text \<open>
  The analytics store passes free-form maps to the driver, so its metrics documents are
  modelled as field lists of BSON values. An embedded document can itself have a field
  whose name starts with \<open>$\<close>.
\<close>

datatype bson =
    BInt int
  | BString string
  | BTime time
  | BDoc "(string \<times> bson) list"

type_synonym document = "(string \<times> bson) list"

fun set_field :: "string \<Rightarrow> bson \<Rightarrow> document \<Rightarrow> document" where
  "set_field k v [] = [(k, v)]"
| "set_field k v ((k', v') # d) = (if k' = k then (k, v) # d else (k', v') # set_field k v d)"

fun set_fields :: "document \<Rightarrow> document \<Rightarrow> document" where
  "set_fields [] d = d"
| "set_fields ((k, v) # upd) d = set_fields upd (set_field k v d)"

text \<open>
  Does a value to be stored contain a field name starting with \<open>$\<close>? Servers before
  version 5.0 reject such a \<open>$set\<close>; later servers store the value as it is. Which of
  the two the server does is the parameter \<open>dollar_names\<close> of the store.
\<close>

fun dollar_inside :: "bson \<Rightarrow> bool" where
  "dollar_inside (BDoc fs) = list_ex (\<lambda>(k, v). take 1 k = ''$'' \<or> dollar_inside v) fs"
| "dollar_inside v = False"

text \<open>The Go struct \<open>ActivityEvent\<close>; \<open>Value\<close> and \<open>Metadata\<close> are free-form.\<close>

record ActivityEvent =
  ev_ID :: string
  ev_Type :: string
  ev_ServerID :: string
  ev_ServerName :: string
  ev_UserID :: string
  ev_Value :: "bson option"
  ev_Metadata :: document
  ev_Timestamp :: time

record MongoAnalyticsDatabase =
  metricsCollection :: "document list"
  activityCollection :: "ActivityEvent list"
  dollar_names :: bool

definition by_id :: "string \<Rightarrow> document \<Rightarrow> bool" where
  "by_id i d = (map_of d ''_id'' = Some (BString i))"

definition metrics_unique :: "(document \<Rightarrow> document \<Rightarrow> bool) list" where
  "metrics_unique = [\<lambda>a b. map_of a ''_id'' = map_of b ''_id'']"

text \<open>
  \<open>UpdateAnalyticsMetrics\<close> adds \<open>last_updated\<close> to the map it is given and sends the
  whole map as the operand of one \<open>$set\<close>, upserting the document \<open>global_metrics\<close>.
\<close>

definition UpdateAnalyticsMetrics ::
  "time \<Rightarrow> document \<Rightarrow> MongoAnalyticsDatabase \<Rightarrow> error option \<times> MongoAnalyticsDatabase" where
  "UpdateAnalyticsMetrics now updates0 db =
     (let updates = set_field ''last_updated'' (BTime now) updates0 in
      if \<not> dollar_names db \<and> dollar_inside (BDoc updates)
      then (Some (ErrWrite DollarPrefixedField), db)
      else
        case update_one metrics_unique (by_id ''global_metrics'') (set_fields updates)
               (Some (set_fields updates [(''_id'', BString ''global_metrics'')]))
               (metricsCollection db) of
          Inl e \<Rightarrow> (Some (ErrWrite e), db)
        | Inr (c, n) \<Rightarrow> (None, db\<lparr>metricsCollection := c\<rparr>))"

text \<open>
  \<open>RecordActivity\<close>: \<open>newID\<close> stands for \<open>primitive.NewObjectID().Hex()\<close>. The
  counters' entries of the map are the values \<open>bson.M{"$inc": 1}\<close>.
\<close>

definition activity_unique :: "(ActivityEvent \<Rightarrow> ActivityEvent \<Rightarrow> bool) list" where
  "activity_unique = [\<lambda>a b. ev_ID a = ev_ID b]"

definition inc_one :: bson where
  "inc_one = BDoc [(''$inc'', BInt 1)]"

definition counter_updates :: "string \<Rightarrow> document" where
  "counter_updates ty =
     (if ty = ''install'' then [(''total_installs'', inc_one), (''installs_today'', inc_one)]
      else if ty = ''rating'' then [(''total_ratings'', inc_one)]
      else if ty = ''search'' then [(''total_searches'', inc_one)]
      else [])"

definition RecordActivity ::
  "time \<Rightarrow> string \<Rightarrow> ActivityEvent \<Rightarrow> MongoAnalyticsDatabase
     \<Rightarrow> error option \<times> MongoAnalyticsDatabase" where
  "RecordActivity now newID event0 db =
     (let event = event0\<lparr>ev_ID := newID, ev_Timestamp := now\<rparr> in
      case insert_one activity_unique event (activityCollection db) of
        Inl e \<Rightarrow> (Some (ErrWrite e), db)
      | Inr c \<Rightarrow>
          (let db1 = db\<lparr>activityCollection := c\<rparr>;
               updates = counter_updates (ev_Type event)
           in if length updates > 0 then UpdateAnalyticsMetrics now updates db1
              else (None, db1)))"

section \<open>Trending (\<open>GetTrending\<close> and \<open>GetTrendingHandler\<close>)\<close>













section \<open>Scenario states\<close>

text \<open>Concrete stores on which the results below are evaluated.\<close>

definition free_mutex :: rwmutex where
  "free_mutex = \<lparr>writer = False, readers = 0\<rparr>"

text \<open>
  The claim scenario of the specification: community statistics
  \<open>install_count = 100, rating = 4.0, rating_count = 10\<close> for server \<open>X\<close>, no
  registry record.
\<close>

definition community_X :: stats_doc where
  "community_X =
     (new_doc (IdString ''X'') (Some ''COMMUNITY''))
       \<lparr>installation_count := Some 100, rating := Some 4, rating_count := Some 10,
        first_seen := Some 1, last_updated := Some 2\<rparr>"

definition community_X_stats :: ServerStats where
  "community_X_stats =
     \<lparr>ServerID = ''X'', Source = ''COMMUNITY'', InstallationCount = 100, Rating = 4,
      RatingCount = 10, FirstSeen = 1, LastUpdated = 2, ActiveInstalls = 0,
      DailyActiveUsers = 0, MonthlyActiveUsers = 0, ClaimedFrom = [], ClaimedAt = 0\<rparr>"

definition claim_db :: MongoDatabase where
  "claim_db = \<lparr>collection = [community_X], mu = free_mutex\<rparr>"




definition legacy_b :: stats_doc where
  "legacy_b =
     (new_doc (IdString ''b'') (Some ''COMMUNITY''))
       \<lparr>installation_count := Some 1, last_updated := Some 4\<rparr>"

definition deadlock_db :: MongoDatabase where
  "deadlock_db = \<lparr>collection = [legacy_b], mu = free_mutex\<rparr>"



definition empty_db :: MongoDatabase where
  "empty_db = \<lparr>collection = [], mu = free_mutex\<rparr>"







definition empty_cache :: CacheService where
  "empty_cache = \<lparr>cache = Map.empty, ttl = 300\<rparr>"

definition no_catalogue :: "string \<Rightarrow> Server option" where
  "no_catalogue i = None"


definition fresh_handlers :: VPHandlers where
  "fresh_handlers =
     \<lparr>service = no_catalogue, statsDB = empty_db, feedbackDB = [],
      statsCache = empty_cache\<rparr>"






text \<open>
  The read-through scenario: list the feedback of \<open>foo\<close> on the fresh state, submit a
  rating for \<open>foo\<close>, list again.
\<close>

definition get_foo_feedback :: "unit Request" where
  "get_foo_feedback =
     \<lparr>Method = ''GET'', Path = ''/vp/servers/foo/feedback'', Query = [], Body = None\<rparr>"

definition rate_foo_by_u1 :: "RatingRequest Request" where
  "rate_foo_by_u1 =
     \<lparr>Method = ''POST'', Path = ''/vp/servers/foo/rate'', Query = [],
      Body = Some \<lparr>rq_Rating = 5, rq_Comment = ''good'', rq_Source = '''', rq_UserID = ''u1'',
                   rq_Timestamp = ''''\<rparr>\<rparr>"

definition after_first_get :: VPHandlers where
  "after_first_get = snd (GetServerFeedbackHandler 10 get_foo_feedback fresh_handlers)"

definition final_state :: "('a, 's) outcome \<Rightarrow> 's" where
  "final_state out = (case out of Blocked s \<Rightarrow> s | Returned r s \<Rightarrow> s)"

definition after_rating_foo :: VPHandlers where
  "after_rating_foo = final_state (SubmitFeedbackHandler 11 ''f1'' rate_foo_by_u1 after_first_get)"

definition feedback_of_u1 :: ServerFeedback where
  "feedback_of_u1 =
     \<lparr>fb_ID = ''f1'', fb_ServerID = ''foo'', fb_Source = ''REGISTRY'', fb_UserID = ''u1'',
      fb_Rating = 5, fb_Comment = ''good'', fb_CreatedAt = 11, fb_UpdatedAt = 11,
      fb_IsPublic = True, fb_Username = '''', fb_UserAvatar = ''''\<rparr>"

definition foo_rated_once :: MongoDatabase where
  "foo_rated_once =
     \<lparr>collection =
        [(new_doc (IdString ''foo'') (Some ''REGISTRY''))
           \<lparr>rating := Some 5, rating_count := Some 1, first_seen := Some 11,
            last_updated := Some 11\<rparr>],
      mu = free_mutex\<rparr>"

definition foo_stats_once :: ServerStats where
  "foo_stats_once =
     \<lparr>ServerID = ''foo'', Source = ''REGISTRY'', InstallationCount = 0, Rating = 5,
      RatingCount = 1, FirstSeen = 11, LastUpdated = 11, ActiveInstalls = 0,
      DailyActiveUsers = 0, MonthlyActiveUsers = 0, ClaimedFrom = [], ClaimedAt = 0\<rparr>"

text \<open>
  An analytics update without any server id in it, and the metrics document before an
  install event is recorded.
\<close>

definition analytics_update :: StatsUpdateRequest where
  "analytics_update =
     \<lparr>InstallationDelta = 0, su_ActiveInstalls = 7, su_DailyActiveUsers = 3,
      su_MonthlyActiveUsers = 9, su_LastUpdated = 50\<rparr>"

definition stray_doc :: stats_doc where
  "stray_doc =
     (new_doc (IdInt 0) None)
       \<lparr>active_installs := Some 7, daily_active_users := Some 3,
        monthly_active_users := Some 9, last_updated := Some 60\<rparr>"

definition global_metrics :: document where
  "global_metrics =
     [(''_id'', BString ''global_metrics''), (''total_installs'', BInt 5),
      (''installs_today'', BInt 2), (''last_updated'', BTime 1)]"

definition analytics_db :: "bool \<Rightarrow> MongoAnalyticsDatabase" where
  "analytics_db dn =
     \<lparr>metricsCollection = [global_metrics], activityCollection = [], dollar_names = dn\<rparr>"

definition install_event :: ActivityEvent where
  "install_event =
     \<lparr>ev_ID = '''', ev_Type = ''install'', ev_ServerID = ''foo'', ev_ServerName = ''Foo'',
      ev_UserID = ''u1'', ev_Value = None, ev_Metadata = [], ev_Timestamp = 0\<rparr>"

definition recorded_event :: ActivityEvent where
  "recorded_event = install_event\<lparr>ev_ID := ''e1'', ev_Timestamp := 7\<rparr>"








section \<open>Lemmas on the document store\<close>









text \<open>The validators on the identifiers and sources of the scenarios.\<close>

lemmas validation_defs =
  SanitizeServerID_def SanitizeID_def TrimSpace_def is_space_def uuidPattern_def
  idPattern_def is_lower_def is_upper_def is_digit_def is_id_char_def in_range_def
  ValidateSource_def AllowedSourceValues_def isAlphanumeric_def

lemma SanitizeServerID_foo: "SanitizeServerID ''foo'' = Inr ''foo''"
  by (simp add: validation_defs)

lemma ValidateSource_REGISTRY: "ValidateSource ''REGISTRY'' = Inr ''REGISTRY''"
  by (simp add: validation_defs)

section \<open>Results on the claim transfer\<close>

lemma by_key_decodes:
  "find_one (by_key i s) c = Some d \<Longrightarrow> decode_ServerStats d \<noteq> None"
  by (auto simp: find_one_def find_Some_iff by_key_def decode_ServerStats_def)

lemma UpsertStats_held:
  "writer (mu db) \<Longrightarrow> UpsertStats now st db = Blocked db"
  by (simp add: UpsertStats_def with_Lock_def Lock_def)

text \<open>
  C3. Whenever a stats record exists for \<open>(from_id, from_source)\<close> (the source as
  \<open>TransferStats\<close> defaults it), the call does not return: it takes the store's write
  mutex at entry and, still holding it, calls \<open>UpsertStats\<close>, whose own \<open>Lock\<close>
  on the same mutex waits for ever. Nothing has been written at that point. (If the
  mutex is already held when the call starts, the call waits at its own entry.)
\<close>

theorem TransferStats_self_deadlock:
  assumes "find_one (by_key fromServerID
                       (if fromSource = '''' then SourceCommunity else fromSource))
             (collection db) = Some sdoc"
  shows "TransferStats now fromServerID toServerID fromSource toSource db =
           Blocked (if writer (mu db) \<or> 0 < readers (mu db) then db
                    else db\<lparr>mu := (mu db)\<lparr>writer := True\<rparr>\<rparr>)"
proof (cases "writer (mu db) \<or> 0 < readers (mu db)")
  case True
  then show ?thesis
    by (simp add: TransferStats_def with_Lock_def Lock_def)
next
  case False
  let ?db = "db\<lparr>mu := (mu db)\<lparr>writer := True\<rparr>\<rparr>"
  let ?fs = "if fromSource = '''' then SourceCommunity else fromSource"
  let ?ts = "if toSource = '''' then SourceRegistry else toSource"
  obtain ss where ss: "decode_ServerStats sdoc = Some ss"
    using assms by_key_decodes by blast
  have "(case find_one (by_key toServerID ?ts) (collection db) of
           None \<Rightarrow> Some None
         | Some tdoc \<Rightarrow> map_option Some (decode_ServerStats tdoc)) \<noteq> None"
    using by_key_decodes by (fastforce split: option.splits)
  then obtain tg where tg:
    "(case find_one (by_key toServerID ?ts) (collection db) of
        None \<Rightarrow> Some None
      | Some tdoc \<Rightarrow> map_option Some (decode_ServerStats tdoc)) = Some tg"
    by blast
  have held: "UpsertStats now st ?db = Blocked ?db" for st
    by (rule UpsertStats_held) simp
  show ?thesis
    using False assms ss tg held
    by (simp add: TransferStats_def with_Lock_def Lock_def Let_def)
qed

theorem TransferStats_self_deadlock_witness:
  "find_one (by_key ''b'' SourceCommunity) (collection deadlock_db) = Some legacy_b \<and>
   TransferStats 9 ''b'' ''c'' '''' '''' deadlock_db =
     Blocked (deadlock_db\<lparr>mu := \<lparr>writer = True, readers = 0\<rparr>\<rparr>)"
proof -
  have h: "find_one (by_key ''b'' (if '''' = '''' then SourceCommunity else ''''))
             (collection deadlock_db) = Some legacy_b"
    by (simp add: deadlock_db_def legacy_b_def find_one_def by_key_def new_doc_def
        SourceCommunity_def)
  show ?thesis
    using h TransferStats_self_deadlock [OF h, of 9 "''c''" "''''"]
    by (simp add: deadlock_db_def free_mutex_def)
qed

text \<open>
  C1 (what the code does in the claim scenario). With the community record
  \<open>(100, 4.0, 10)\<close> for \<open>X\<close> and no registry record,
  \<open>TransferStats(X, X, COMMUNITY, REGISTRY)\<close> does not complete: it waits for ever
  on its own mutex, with the collection as it was, so no registry record for \<open>X\<close>
  exists and the community record carries no \<open>claimed_to\<close>. The record the call had
  computed for the target is the one the claim describes.
\<close>

theorem TransferStats_claim_scenario_never_completes:
  "TransferStats 3 ''X'' ''X'' SourceCommunity SourceRegistry claim_db =
     Blocked \<lparr>collection = [community_X], mu = \<lparr>writer = True, readers = 0\<rparr>\<rparr> \<and>
   find_one (by_key ''X'' SourceRegistry) [community_X] = None \<and>
   claimed_to community_X = None \<and>
   decode_ServerStats community_X = Some community_X_stats \<and>
   newStats 3 community_X_stats None ''X'' SourceCommunity SourceRegistry =
     \<lparr>ServerID = ''X'', Source = ''REGISTRY'', InstallationCount = 100, Rating = 4,
      RatingCount = 10, FirstSeen = 1, LastUpdated = 3, ActiveInstalls = 0,
      DailyActiveUsers = 0, MonthlyActiveUsers = 0, ClaimedFrom = ''COMMUNITY'', ClaimedAt = 3\<rparr>"
  by (simp add: claim_db_def community_X_def community_X_stats_def free_mutex_def
      TransferStats_def with_Lock_def Lock_def Let_def find_one_def by_key_def new_doc_def
      decode_ServerStats_def UpsertStats_def SourceCommunity_def SourceRegistry_def
      newStats_def or_zero_def or_empty_def)




section \<open>Results on the running mean of ratings\<close>








section \<open>Results on the feedback store and its handlers\<close>










section \<open>Results on the cache of feedback lists\<close>

text \<open>
  \<open>invalidateFeedbackCache\<close> deletes the key \<open>vp:feedback:<id>:*\<close> as a literal key.
  A feedback list is cached under \<open>vp:feedback:<id>:<source>:<limit>:<offset>:<sort>\<close>,
  which ends in the name of a sort order and never in \<open>*\<close>: no cached feedback list
  is ever removed by the invalidation, whatever the server, source, limit, offset and
  sort order.
\<close>

lemma last_of_list_key: "last (feedback_cache_key sid s l off ord) = last (sort_name ord)"
  by (cases ord) (simp_all add: feedback_cache_key_def sort_name_def)

lemma list_key_is_not_the_pattern:
  "feedback_cache_key sid s l off ord \<noteq> ''vp:feedback:'' @ serverID @ '':*''"
proof
  assume "feedback_cache_key sid s l off ord = ''vp:feedback:'' @ serverID @ '':*''"
  then have "last (feedback_cache_key sid s l off ord) =
             last (''vp:feedback:'' @ serverID @ '':*'')"
    by simp
  then show False
    by (cases ord) (simp_all add: last_of_list_key sort_name_def)
qed

lemma invalidate_keeps_list_entry:
  "cache (invalidateFeedbackCache serverID src c) (feedback_cache_key sid s l off ord) =
     cache c (feedback_cache_key sid s l off ord)"
proof -
  have "feedback_cache_key sid s l off ord \<noteq> ''vp:server:'' @ serverID"
    "feedback_cache_key sid s l off ord \<noteq> ''vp:stats:'' @ serverID"
    "feedback_cache_key sid s l off ord \<noteq> ''vp:stats:'' @ serverID @ '':'' @ src"
    "feedback_cache_key sid s l off ord \<noteq> ''vp:servers:''"
    by (simp_all add: feedback_cache_key_def)
  then show ?thesis
    using list_key_is_not_the_pattern [of sid s l off ord serverID]
    by (simp add: invalidateFeedbackCache_def cache_Delete_def Let_def)
qed

text \<open>The steps of the read-through scenario.\<close>

lemma foo_list_key:
  "feedback_cache_key ''foo'' ''REGISTRY'' 20 0 FeedbackSortNewest =
     ''vp:feedback:foo:REGISTRY:20:0:newest''"
  by (simp add: feedback_cache_key_def itoa_def digits.simps digit_char_def sort_name_def)

lemma foo_feedback_parts: "path_parts ''/vp/servers/foo/feedback'' = [''foo'', ''feedback'']"
  by (simp add: path_parts_def TrimPrefix_def)

lemma foo_rate_parts: "path_parts ''/vp/servers/foo/rate'' = [''foo'', ''rate'']"
  by (simp add: path_parts_def TrimPrefix_def)

lemma get_foo_feedback_args:
  "parse_limit (query_Get get_foo_feedback ''limit'') = 20"
  "parse_offset (query_Get get_foo_feedback ''offset'') = 0"
  "parse_sort (query_Get get_foo_feedback ''sort'') = FeedbackSortNewest"
  "default_source (query_Get get_foo_feedback ''source'') = ''REGISTRY''"
  by (simp_all add: get_foo_feedback_def query_Get_def parse_limit_def parse_offset_def
      parse_sort_def default_source_def SourceRegistry_def)

lemma first_get_misses:
  "GetServerFeedbackHandler 10 get_foo_feedback fresh_handlers =
     (\<lparr>Status = 200, XCache = ''MISS'', Payload = FeedbackList empty_FeedbackResponse\<rparr>,
      fresh_handlers
        \<lparr>statsCache := cache_Set 10 ''vp:feedback:foo:REGISTRY:20:0:newest''
                         (FeedbackList empty_FeedbackResponse) empty_cache\<rparr>)"
  using SanitizeServerID_foo ValidateSource_REGISTRY
  by (simp add: GetServerFeedbackHandler_def get_foo_feedback_args foo_list_key Let_def)
     (simp add: get_foo_feedback_def fresh_handlers_def foo_feedback_parts cache_Get_def
        empty_cache_def GetServerFeedback_def default_source_def sort_by_def foo_list_key
        empty_FeedbackResponse_def StatusOK_def Let_def)

lemma after_first_get_eq:
  "after_first_get =
     fresh_handlers
       \<lparr>statsCache := cache_Set 10 ''vp:feedback:foo:REGISTRY:20:0:newest''
                        (FeedbackList empty_FeedbackResponse) empty_cache\<rparr>"
  by (simp add: after_first_get_def first_get_misses)

lemma u1_has_no_feedback:
  "GetUserFeedback ''foo'' ''u1'' ''REGISTRY'' [] = Inl ErrFeedbackNotFound"
  using SanitizeServerID_foo ValidateSource_REGISTRY
  by (simp add: GetUserFeedback_def default_source_def find_one_def)

lemma create_feedback_of_u1:
  "CreateFeedback 11 ''f1''
     \<lparr>fb_ID = ''f1'', fb_ServerID = ''foo'', fb_Source = ''REGISTRY'', fb_UserID = ''u1'',
      fb_Rating = 5, fb_Comment = ''good'', fb_CreatedAt = 0, fb_UpdatedAt = 0,
      fb_IsPublic = True, fb_Username = [], fb_UserAvatar = []\<rparr> [] =
   Inr (feedback_of_u1, [feedback_of_u1])"
  using SanitizeServerID_foo ValidateSource_REGISTRY
  by (simp add: CreateFeedback_def Let_def insert_one_def collides_def feedback_unique_def
      stored_def feedback_of_u1_def SourceRegistry_def)

lemma rate_foo_once:
  "UpdateRating 11 ''foo'' ''REGISTRY'' 5 empty_db = Returned None foo_rated_once"
  using SanitizeServerID_foo ValidateSource_REGISTRY
  by (simp add: empty_db_def foo_rated_once_def UpdateRating_def with_Lock_def Lock_def
      Unlock_def Let_def default_source_def SourceRegistry_def current_stats_def find_one_def
      by_key_def update_one_def collides_def rekeyed_def stats_unique_def set_rating_def
      new_doc_def zero_stats_def decode_ServerStats_def or_zero_def or_empty_def free_mutex_def)

lemma read_foo_once:
  "GetStats 11 ''foo'' ''REGISTRY'' foo_rated_once = Returned (Inr foo_stats_once) foo_rated_once"
  using SanitizeServerID_foo ValidateSource_REGISTRY
  by (simp add: foo_rated_once_def foo_stats_once_def GetStats_def with_RLock_def RLock_def
      RUnlock_def default_source_def SourceRegistry_def find_one_def by_key_def new_doc_def
      free_mutex_def decode_ServerStats_def empty_stats_def or_zero_def or_empty_def)

lemma submit_rating_of_u1:
  "SubmitFeedbackHandler 11 ''f1'' rate_foo_by_u1 after_first_get =
     Returned (ok (FeedbackSubmitted feedback_of_u1 (Some foo_stats_once)))
       (after_first_get
          \<lparr>feedbackDB := [feedback_of_u1], statsDB := foo_rated_once,
           statsCache := invalidateFeedbackCache ''foo'' ''REGISTRY''
                           (statsCache after_first_get)\<rparr>)"
  using u1_has_no_feedback create_feedback_of_u1 rate_foo_once read_foo_once
  by (simp add: SubmitFeedbackHandler_def rate_foo_by_u1_def foo_rate_parts Let_def
      default_source_def SourceRegistry_def SourceCommunity_def after_first_get_eq
      fresh_handlers_def after_rating_def)

lemma after_rating_foo_eq:
  "after_rating_foo =
     after_first_get
       \<lparr>feedbackDB := [feedback_of_u1], statsDB := foo_rated_once,
        statsCache := invalidateFeedbackCache ''foo'' ''REGISTRY'' (statsCache after_first_get)\<rparr>"
  by (simp add: after_rating_foo_def submit_rating_of_u1 final_state_def)

lemma list_of_foo_in_store:
  "GetServerFeedback ''foo'' ''REGISTRY'' 20 0 FeedbackSortNewest [feedback_of_u1] =
     Inr \<lparr>Feedback = [feedback_of_u1], TotalCount = 1, HasMore = False\<rparr>"
  using SanitizeServerID_foo ValidateSource_REGISTRY
  by (simp add: GetServerFeedback_def default_source_def Let_def sort_by_def feedback_of_u1_def)

lemma foo_list_survives:
  "cache (invalidateFeedbackCache ''foo'' ''REGISTRY'' c) ''vp:feedback:foo:REGISTRY:20:0:newest'' =
     cache c ''vp:feedback:foo:REGISTRY:20:0:newest''"
  using invalidate_keeps_list_entry [of "''foo''" "''REGISTRY''" c "''foo''" "''REGISTRY''" 20 0
      FeedbackSortNewest]
  by (simp only: foo_list_key)

lemma second_get_hits:
  "GetServerFeedbackHandler 12 get_foo_feedback after_rating_foo =
     (\<lparr>Status = 200, XCache = ''HIT'', Payload = FeedbackList empty_FeedbackResponse\<rparr>,
      after_rating_foo)"
proof -
  have "cache (statsCache after_rating_foo)
          (feedback_cache_key ''foo'' ''REGISTRY'' 20 0 FeedbackSortNewest) =
        Some \<lparr>data = FeedbackList empty_FeedbackResponse, expiresAt = 310\<rparr>"
    by (simp add: after_rating_foo_eq foo_list_key foo_list_survives after_first_get_eq
        cache_Set_def empty_cache_def)
  then have "cache_Get 12 (feedback_cache_key ''foo'' ''REGISTRY'' 20 0 FeedbackSortNewest)
               (statsCache after_rating_foo) = Some (FeedbackList empty_FeedbackResponse)"
    by (simp add: cache_Get_def)
  then show ?thesis
    by (simp add: GetServerFeedbackHandler_def get_foo_feedback_args Let_def)
       (simp add: get_foo_feedback_def foo_feedback_parts StatusOK_def)
qed

text \<open>
  C5 (what the code does). On a fresh state, a GET of the feedback list of \<open>foo\<close> at
  tick 10 misses and caches the empty list. The rating that user \<open>u1\<close> submits for
  \<open>foo\<close> at tick 11 is accepted: the feedback is in the store, and a query of the store
  lists it. The GET at tick 12, within the time to live, is a cache hit that returns the
  empty list cached before the rating: the invalidation has not removed the entry.
\<close>

theorem feedback_list_stale_after_rating:
  "GetServerFeedbackHandler 10 get_foo_feedback fresh_handlers =
     (\<lparr>Status = 200, XCache = ''MISS'', Payload = FeedbackList empty_FeedbackResponse\<rparr>,
      after_first_get) \<and>
   SubmitFeedbackHandler 11 ''f1'' rate_foo_by_u1 after_first_get =
     Returned (ok (FeedbackSubmitted feedback_of_u1 (Some foo_stats_once))) after_rating_foo \<and>
   feedbackDB after_rating_foo = [feedback_of_u1] \<and>
   GetServerFeedback ''foo'' ''REGISTRY'' 20 0 FeedbackSortNewest (feedbackDB after_rating_foo) =
     Inr \<lparr>Feedback = [feedback_of_u1], TotalCount = 1, HasMore = False\<rparr> \<and>
   GetServerFeedbackHandler 12 get_foo_feedback after_rating_foo =
     (\<lparr>Status = 200, XCache = ''HIT'', Payload = FeedbackList empty_FeedbackResponse\<rparr>,
      after_rating_foo)"
proof -
  have db: "feedbackDB after_rating_foo = [feedback_of_u1]"
    by (simp add: after_rating_foo_eq)
  show ?thesis
    using first_get_misses submit_rating_of_u1 second_get_hits list_of_foo_in_store db
    by (simp add: after_first_get_eq [symmetric] after_rating_foo_eq [symmetric])
qed

section \<open>Results on the analytics sync and the activity counters\<close>

text \<open>
  The filter of \<open>SyncAnalyticsData\<close> matches integer keys only, so whatever the
  updates are, the documents that belong to a server come out as they went in.
\<close>

lemma update_by_int_keeps_server_records:
  assumes "update_one stats_unique (by_int_id n) (set_analytics u now)
             (Some (set_analytics u now (new_doc (IdInt n) None))) c = Inr (c', k)"
  shows "filter is_server_record c' = filter is_server_record c"
proof (cases "dropWhile (\<lambda>d. \<not> by_int_id n d) c")
  case Nil
  have "c' = c @ [set_analytics u now (new_doc (IdInt n) None)]"
    using assms by (simp add: update_one_def Nil split: if_splits)
  then show ?thesis
    by (simp add: is_server_record_def set_analytics_def new_doc_def)
next
  case (Cons d post)
  have m: "by_int_id n d"
    using Cons by (metis dropWhile_eq_Cons_conv)
  have c: "c = takeWhile (\<lambda>d. \<not> by_int_id n d) c @ d # post"
    using Cons by (metis takeWhile_dropWhile_id)
  have c': "c' = takeWhile (\<lambda>d. \<not> by_int_id n d) c @ set_analytics u now d # post"
    using assms Cons by (simp add: update_one_def Let_def split: if_splits)
  have "\<not> is_server_record d" "\<not> is_server_record (set_analytics u now d)"
    using m by (simp_all add: by_int_id_def is_server_record_def set_analytics_def)
  then have "filter is_server_record c' =
             filter is_server_record (takeWhile (\<lambda>d. \<not> by_int_id n d) c @ d # post)"
    by (simp add: c')
  then show ?thesis
    using c by simp
qed

lemma BulkWrite_keeps_server_records:
  "BulkWrite now updates c = (e, c') \<Longrightarrow>
     filter is_server_record c' = filter is_server_record c"
proof (induction updates arbitrary: c)
  case Nil
  then show ?case by simp
next
  case (Cons u rest)
  show ?case
  proof (cases "update_one stats_unique (by_int_id (InstallationDelta u)) (set_analytics u now)
                  (Some (set_analytics u now (new_doc (IdInt (InstallationDelta u)) None))) c")
    case (Inl err)
    then show ?thesis
      using Cons.prems by simp
  next
    case (Inr r)
    obtain c1 k where r: "r = (c1, k)"
      by (cases r)
    have "filter is_server_record c1 = filter is_server_record c"
      using Inr r by (auto dest: update_by_int_keeps_server_records)
    moreover have "filter is_server_record c' = filter is_server_record c1"
      using Cons.prems Inr r by (auto intro: Cons.IH)
    ultimately show ?thesis
      by simp
  qed
qed

lemma SyncAnalyticsData_keeps_server_records:
  assumes "SyncAnalyticsData now updates db = Returned e db'"
  shows "filter is_server_record (collection db') = filter is_server_record (collection db)"
proof -
  obtain m where m: "Lock (mu db) = Some m"
    using assms by (cases "Lock (mu db)") (auto simp: SyncAnalyticsData_def with_Lock_def)
  show ?thesis
  proof (cases "length updates > 0")
    case False
    then show ?thesis
      using assms m by (auto simp: SyncAnalyticsData_def with_Lock_def)
  next
    case True
    obtain err c where b: "BulkWrite now updates (collection db) = (err, c)"
      by (cases "BulkWrite now updates (collection db)")
    have "collection db' = c"
      using assms m True b
      by (cases err) (auto simp: SyncAnalyticsData_def with_Lock_def)
    then show ?thesis
      using BulkWrite_keeps_server_records [OF b] by simp
  qed
qed

text \<open>
  C8 (what the code does). The store holds the record of server \<open>X\<close>. Syncing one
  update with \<open>active_installs = 7\<close>, \<open>daily_active_users = 3\<close>,
  \<open>monthly_active_users = 9\<close> leaves that record as it was, without any of the three
  fields, and upserts a document whose \<open>server_id\<close> is the integer
  \<open>InstallationDelta = 0\<close> of the update.
\<close>

theorem SyncAnalyticsData_misses_the_server:
  "SyncAnalyticsData 60 [analytics_update] claim_db =
     Returned None \<lparr>collection = [community_X, stray_doc], mu = free_mutex\<rparr> \<and>
   server_id community_X = IdString ''X'' \<and>
   active_installs community_X = None \<and>
   daily_active_users community_X = None \<and>
   monthly_active_users community_X = None \<and>
   server_id stray_doc = IdInt 0 \<and>
   active_installs stray_doc = Some 7"
  by (simp add: SyncAnalyticsData_def with_Lock_def Lock_def Unlock_def claim_db_def
      free_mutex_def analytics_update_def stray_doc_def community_X_def update_one_def
      by_int_id_def new_doc_def set_analytics_def collides_def stats_unique_def)

text \<open>
  C7 (what the code does). The metrics document holds \<open>total_installs = 5\<close> and
  \<open>installs_today = 2\<close>. Recording an install event inserts the event with the new id
  and the current time. Then, on a server that stores field names starting with \<open>$\<close>,
  both counters are overwritten by the embedded document \<open>{"$inc": 1}\<close>; on a server
  that rejects them, the call returns the write error and the counters stay 5 and 2.
  In neither case does a counter become 6 or 3.
\<close>

theorem RecordActivity_does_not_increment:
  "RecordActivity 7 ''e1'' install_event (analytics_db True) =
     (None,
      \<lparr>metricsCollection =
         [[(''_id'', BString ''global_metrics''), (''total_installs'', BDoc [(''$inc'', BInt 1)]),
           (''installs_today'', BDoc [(''$inc'', BInt 1)]), (''last_updated'', BTime 7)]],
       activityCollection = [recorded_event], dollar_names = True\<rparr>) \<and>
   RecordActivity 7 ''e1'' install_event (analytics_db False) =
     (Some (ErrWrite DollarPrefixedField),
      \<lparr>metricsCollection =
         [[(''_id'', BString ''global_metrics''), (''total_installs'', BInt 5),
           (''installs_today'', BInt 2), (''last_updated'', BTime 1)]],
       activityCollection = [recorded_event], dollar_names = False\<rparr>) \<and>
   ev_ID recorded_event = ''e1'' \<and> ev_Timestamp recorded_event = 7"
  by (simp add: RecordActivity_def UpdateAnalyticsMetrics_def analytics_db_def
      install_event_def recorded_event_def global_metrics_def counter_updates_def inc_one_def
      insert_one_def collides_def activity_unique_def update_one_def by_id_def rekeyed_def
      metrics_unique_def Let_def)

section \<open>Results on trending\<close>





















end
